theory Spec2Isabelle
  imports Complex_Main
begin

section \<open>Data model\<close>

text \<open>
  The persistent store of the car-pooling backend: the Ride, User, Transaction and
  Notification collections (models/ride.model.js, the user model, the transaction schema
  and the notification schema of models/notification.model.js). Document identifiers are
  natural numbers, JavaScript numbers that hold counts are integers, and numbers that
  hold money, distances and averages are idealised as reals. The fields kept are those
  that the ride life cycle, the wallet ledger, the impact settlement and the rating
  aggregation read or write. The seat count of a ride is an integer-valued double and is
  kept as the integer it denotes, rounded where the code computes with it (see
  \<open>double_of_int\<close> below). Left out are time stamps, addresses, titles and messages of
  notifications, and the ride's own \<open>environmentalImpact\<close> snapshot that the ride
  schema's pre-save hook recomputes: no handler reads them.
\<close>

type_synonym user_id = nat
type_synonym ride_id = nat
type_synonym transaction_id = nat
type_synonym coordinates = "real list"

datatype ride_status = Scheduled | InProgress | RideCompleted | RideCancelled

datatype passenger_status = Pending | Accepted | Rejected | PassengerCancelled

datatype fare_status = FarePending | FarePaid | FareRefunded

datatype transaction_type = RidePayment | WalletTopup | WalletWithdrawal | Refund

datatype transaction_status = TxPending | TxCompleted | TxFailed | TxRefunded

datatype payment_method = Wallet | Card | Upi | Netbanking | Cash

datatype review_role = AsDriver | AsPassenger

record fare =
  f_amount :: "real option"
  f_status :: fare_status

record passenger =
  p_user :: user_id
  p_status :: passenger_status
  p_pickupLocation :: coordinates
  p_dropoffLocation :: coordinates
  p_fare :: fare

record ride =
  r_driver :: user_id
  r_fuelEfficiency :: "real option"
  r_startLocation :: coordinates
  r_endLocation :: coordinates
  r_distance :: "real option"
  r_availableSeats :: int
  r_passengers :: "passenger list"
  r_status :: ride_status
  r_currentLocation :: coordinates
  r_cancellationReason :: "string option"

record review =
  rv_reviewer :: user_id
  rv_role :: review_role
  rv_rating :: int
  rv_comment :: string

record user =
  u_fuelEfficiency :: "real option"
  u_balance :: real
  u_transactions :: "transaction_id list"
  u_driverAverage :: real
  u_driverCount :: nat
  u_passengerAverage :: real
  u_passengerCount :: nat
  u_reviews :: "review list"
  u_ridesAsDriver :: "ride_id list"
  u_ridesAsPassenger :: "ride_id list"
  u_co2Saved :: real
  u_fuelSaved :: real
  u_treesEquivalent :: real

record transaction =
  t_sender :: user_id
  t_receiver :: user_id
  t_ride :: "ride_id option"
  t_amount :: real
  t_type :: transaction_type
  t_status :: transaction_status
  t_paymentMethod :: payment_method

record notification =
  n_recipient :: user_id
  n_sender :: user_id
  n_type :: string
  n_ride :: "ride_id option"
  n_transaction :: "transaction_id option"

text \<open>
  The store. Rides and users are keyed by identifier. Transactions and notifications are
  append-only collections, a transaction's identifier being its position.
\<close>

record db =
  rides :: "ride_id \<rightharpoonup> ride"
  users :: "user_id \<rightharpoonup> user"
  transactions :: "transaction list"
  notifications :: "notification list"

section \<open>Responses and effects\<close>

text \<open>
  A handler either answers with a success payload or with an error. The errors are the
  three ways a handler of the controllers ends without success: the 400 answer carrying the
  express-validator error array, an answer with a status code and a message, and an
  exception caught by the handler's \<open>try\<close> block and forwarded with \<open>next(err)\<close>. The store
  after the handler is returned in both cases, since every awaited write that ran before
  the failure stays in the database.
\<close>

datatype exn = ValidationError | TypeError | DuplicateKey | UpdateConflict

datatype error = ValidationErrors | Http nat string | Thrown exn

type_synonym 'a handler = "db \<Rightarrow> (error + 'a) \<times> db"

definition succeed :: "'a \<Rightarrow> 'a handler" where
  "succeed x = (\<lambda>s. (Inr x, s))"

definition respond :: "nat \<Rightarrow> string \<Rightarrow> 'a handler" where
  "respond code msg = (\<lambda>s. (Inl (Http code msg), s))"

definition throw :: "exn \<Rightarrow> 'a handler" where
  "throw e = (\<lambda>s. (Inl (Thrown e), s))"

definition andThen :: "'a handler \<Rightarrow> ('a \<Rightarrow> 'b handler) \<Rightarrow> 'b handler" where
  "andThen m f = (\<lambda>s. case m s of (Inl e, s') \<Rightarrow> (Inl e, s') | (Inr x, s') \<Rightarrow> f x s')"

definition findIndex :: "('a \<Rightarrow> bool) \<Rightarrow> 'a list \<Rightarrow> nat option" where
  "findIndex P xs = (if list_ex P xs then Some (length (takeWhile (\<lambda>x. \<not> P x) xs)) else None)"

subsection \<open>Whole numbers as JavaScript numbers\<close>

text \<open>
  A JavaScript number is an IEEE double. Whole numbers up to \<open>2^53\<close> in magnitude are
  doubles; a larger whole number is rounded to the nearest double, ties going to the even
  significand, and from \<open>2^1024\<close> on the result is Infinity. \<open>double_of_int x\<close> is the
  double that \<open>Number\<close>, \<open>+\<close> and \<open>-\<close> deliver for the exact whole result \<open>x\<close>; the value
  \<open>2^1024\<close> stands for Infinity, which adding or subtracting 1 leaves as it is, as it
  leaves every double from \<open>2^54\<close> on.
\<close>

function bit_length :: "int \<Rightarrow> nat" where
  "bit_length x = (if x \<le> 0 then 0 else Suc (bit_length (x div 2)))"
  by pat_completeness auto
termination
  by (relation "measure nat") auto

definition double_of_int :: "int \<Rightarrow> int" where
  "double_of_int x =
     (if \<bar>x\<bar> \<le> 2 ^ 53 then x
      else
        (let u = 2 ^ (bit_length \<bar>x\<bar> - 53);
             q = \<bar>x\<bar> div u;
             r = \<bar>x\<bar> mod u;
             q' = (if u < 2 * r \<or> (2 * r = u \<and> odd q) then q + 1 else q);
             y = q' * u
         in sgn x * (if 2 ^ 1024 \<le> y then 2 ^ 1024 else y)))"

text \<open>The sum of two doubles that denote whole numbers: an infinite operand wins.\<close>

definition double_add :: "int \<Rightarrow> int \<Rightarrow> int" where
  "double_add x k =
     (if \<bar>x\<bar> = 2 ^ 1024 then x else if \<bar>k\<bar> = 2 ^ 1024 then k else double_of_int (x + k))"

subsection \<open>Schema validation\<close>

text \<open>
  Mongoose validates a document against its schema before \<open>save\<close> and \<open>create\<close> write
  it (validation is the first pre-save hook of every schema), and rejects with a
  ValidationError otherwise; nothing is written then. The constraints that the typed
  fields above do not already enforce are:
  \<^item> \<open>availableSeats\<close> of a ride has \<open>min: 1\<close> (ride.model.js, lines 93 to 97);
  \<^item> a passenger's \<open>status\<close> is a member of its enum (ride.model.js, line 105);
  \<^item> a transaction's \<open>paymentMethod\<close> is one of wallet, card, upi, netbanking, cash
    (the transaction schema, notification.model.js, lines 96 to 100);
  \<^item> a notification's \<open>type\<close> is a member of its enum (notification.model.js,
    lines 13 to 29).
  String values that a handler passes to an enum field are kept as strings up to this
  check.
\<close>

definition rideSchema_valid :: "ride \<Rightarrow> bool" where
  "rideSchema_valid r \<longleftrightarrow> 1 \<le> r_availableSeats r"

definition passenger_status_enum :: "string \<Rightarrow> passenger_status option" where
  "passenger_status_enum s =
     (if s = ''pending'' then Some Pending
      else if s = ''accepted'' then Some Accepted
      else if s = ''rejected'' then Some Rejected
      else if s = ''cancelled'' then Some PassengerCancelled
      else None)"

definition paymentMethod_enum :: "string \<Rightarrow> payment_method option" where
  "paymentMethod_enum s =
     (if s = ''wallet'' then Some Wallet
      else if s = ''card'' then Some Card
      else if s = ''upi'' then Some Upi
      else if s = ''netbanking'' then Some Netbanking
      else if s = ''cash'' then Some Cash
      else None)"

definition notification_type_enum :: "string list" where
  "notification_type_enum =
     [''ride_request'', ''ride_accepted'', ''ride_rejected'', ''ride_cancelled'',
      ''ride_started'', ''ride_completed'', ''payment_received'', ''payment_sent'',
      ''rating_received'', ''system_alert'', ''safety_alert'']"

subsection \<open>Collection operations\<close>

definition Ride_findById :: "ride_id \<Rightarrow> db \<Rightarrow> ride option" where
  "Ride_findById rid s = rides s rid"

definition Ride_save :: "ride_id \<Rightarrow> ride \<Rightarrow> unit handler" where
  "Ride_save rid r = (\<lambda>s.
     if rideSchema_valid r then (Inr (), s\<lparr>rides := (rides s)(rid \<mapsto> r)\<rparr>)
     else (Inl (Thrown ValidationError), s))"

definition User_save :: "user_id \<Rightarrow> user \<Rightarrow> unit handler" where
  "User_save uid u = (\<lambda>s. (Inr (), s\<lparr>users := (users s)(uid \<mapsto> u)\<rparr>))"

definition User_push_ridesAsPassenger :: "user_id \<Rightarrow> ride_id \<Rightarrow> unit handler" where
  "User_push_ridesAsPassenger uid rid = (\<lambda>s.
     case users s uid of
       None \<Rightarrow> (Inr (), s)
     | Some u \<Rightarrow> (Inr (), s\<lparr>users := (users s)(uid \<mapsto>
                     u\<lparr>u_ridesAsPassenger := u_ridesAsPassenger u @ [rid]\<rparr>)\<rparr>))"

definition User_pull_ridesAsPassenger :: "user_id \<Rightarrow> ride_id \<Rightarrow> unit handler" where
  "User_pull_ridesAsPassenger uid rid = (\<lambda>s.
     case users s uid of
       None \<Rightarrow> (Inr (), s)
     | Some u \<Rightarrow> (Inr (), s\<lparr>users := (users s)(uid \<mapsto>
                     u\<lparr>u_ridesAsPassenger := removeAll rid (u_ridesAsPassenger u)\<rparr>)\<rparr>))"

definition User_pull_ridesAsDriver :: "user_id \<Rightarrow> ride_id \<Rightarrow> unit handler" where
  "User_pull_ridesAsDriver uid rid = (\<lambda>s.
     case users s uid of
       None \<Rightarrow> (Inr (), s)
     | Some u \<Rightarrow> (Inr (), s\<lparr>users := (users s)(uid \<mapsto>
                     u\<lparr>u_ridesAsDriver := removeAll rid (u_ridesAsDriver u)\<rparr>)\<rparr>))"

definition Notification_create :: "notification \<Rightarrow> unit handler" where
  "Notification_create n = (\<lambda>s.
     if n_type n \<in> set notification_type_enum
     then (Inr (), s\<lparr>notifications := notifications s @ [n]\<rparr>)
     else (Inl (Thrown ValidationError), s))"

definition notify ::
  "user_id \<Rightarrow> user_id \<Rightarrow> string \<Rightarrow> ride_id \<Rightarrow> transaction_id option \<Rightarrow> unit handler" where
  "notify recipient sender ty rid tx =
     Notification_create \<lparr>n_recipient = recipient, n_sender = sender, n_type = ty,
                          n_ride = Some rid, n_transaction = tx\<rparr>"

definition User_findById :: "user_id \<Rightarrow> db \<Rightarrow> user option" where
  "User_findById uid s = users s uid"

text \<open>JavaScript's \<open>x || d\<close> on an optional number: the default replaces an absent value
  and zero.\<close>

definition js_or :: "real option \<Rightarrow> real \<Rightarrow> real" where
  "js_or x d = (case x of None \<Rightarrow> d | Some v \<Rightarrow> if v = 0 then d else v)"

definition ride_status_name :: "ride_status \<Rightarrow> string" where
  "ride_status_name st = (case st of Scheduled \<Rightarrow> ''scheduled'' | InProgress \<Rightarrow> ''in_progress''
     | RideCompleted \<Rightarrow> ''completed'' | RideCancelled \<Rightarrow> ''cancelled'')"

definition accepted :: "ride \<Rightarrow> passenger list" where
  "accepted r = filter (\<lambda>p. p_status p = Accepted) (r_passengers r)"

definition set_passenger_status :: "nat \<Rightarrow> passenger_status \<Rightarrow> ride \<Rightarrow> ride" where
  "set_passenger_status i st r =
     r\<lparr>r_passengers := (r_passengers r)[i := (r_passengers r ! i)\<lparr>p_status := st\<rparr>]\<rparr>"

definition join_entry :: "user_id \<Rightarrow> coordinates \<Rightarrow> coordinates \<Rightarrow> passenger" where
  "join_entry actor pickup dropoff =
     \<lparr>p_user = actor, p_status = Pending, p_pickupLocation = pickup,
      p_dropoffLocation = dropoff, p_fare = \<lparr>f_amount = None, f_status = FarePending\<rparr>\<rparr>"

section \<open>Ride controller\<close>

text \<open>\<open>requestRide\<close> (ride.controller.js). \<open>fields_ok\<close> is the outcome of
  \<open>validationResult(req).isEmpty()\<close> for the address and coordinate fields of the payload.\<close>

definition requestRide ::
  "bool \<Rightarrow> user_id \<Rightarrow> ride_id \<Rightarrow> coordinates \<Rightarrow> coordinates \<Rightarrow> ride handler" where
  "requestRide fields_ok actor rid pickup dropoff = (\<lambda>s.
     if \<not> fields_ok then (Inl ValidationErrors, s)
     else case Ride_findById rid s of
       None \<Rightarrow> respond 404 ''Ride not found'' s
     | Some ride \<Rightarrow>
         if r_driver ride = actor
         then respond 400 ''You cannot request to join your own ride'' s
         else if find (\<lambda>p. p_user p = actor) (r_passengers ride) \<noteq> None
         then respond 400 ''You have already requested to join this ride'' s
         else if r_availableSeats ride \<le> 0
         then respond 400 ''This ride is full'' s
         else
           (let ride' = ride\<lparr>r_passengers :=
                  r_passengers ride @ [join_entry actor pickup dropoff]\<rparr>
            in andThen (Ride_save rid ride') (\<lambda>_.
               andThen (notify (r_driver ride) actor ''ride_request'' rid None) (\<lambda>_.
               succeed ride'))) s)"

text \<open>\<open>createRide\<close>. The handler hands the whole request body to \<open>Ride.create\<close>
  after overwriting \<open>driver\<close> and \<open>vehicle\<close>, so the body decides every other field of the
  stored ride: \<open>ride_payload\<close> holds the body's entries for the fields kept here, an absent
  passenger list, status, current location or cancellation reason taking the schema's
  default. \<open>oid\<close> is the document's \<open>_id\<close>: the one in the body if it has one, else the
  fresh ObjectId that Mongoose generates; an \<open>_id\<close> already in the collection is a
  duplicate key error. The route's \<open>isInt({min: 1})\<close> check on \<open>availableSeats\<close> is
  computed and \<open>fields_ok\<close> is the outcome of the route's other checks. \<open>schema_ok\<close> is the
  outcome of the schema's validators on what is not kept here (the required
  \<open>estimatedArrivalTime\<close>, for one, which the route does not check).\<close>

record ride_payload =
  pl_startLocation :: coordinates
  pl_endLocation :: coordinates
  pl_distance :: "real option"
  pl_availableSeats :: int
  pl_passengers :: "passenger list"
  pl_status :: "ride_status option"
  pl_currentLocation :: "coordinates option"
  pl_cancellationReason :: "string option"

definition Ride_create :: "ride_id \<Rightarrow> ride \<Rightarrow> unit handler" where
  "Ride_create oid r = (\<lambda>s.
     if \<not> rideSchema_valid r then (Inl (Thrown ValidationError), s)
     else if rides s oid \<noteq> None then (Inl (Thrown DuplicateKey), s)
     else (Inr (), s\<lparr>rides := (rides s)(oid \<mapsto> r)\<rparr>))"

definition createRide ::
  "bool \<Rightarrow> bool \<Rightarrow> user_id \<Rightarrow> ride_id \<Rightarrow> ride_payload \<Rightarrow> ride handler" where
  "createRide fields_ok schema_ok actor oid body = (\<lambda>s.
     if \<not> (fields_ok \<and> 1 \<le> pl_availableSeats body) then (Inl ValidationErrors, s)
     else case User_findById actor s of
       None \<Rightarrow> throw TypeError s
     | Some user \<Rightarrow>
         (let ride = \<lparr>r_driver = actor, r_fuelEfficiency = u_fuelEfficiency user,
                       r_startLocation = pl_startLocation body,
                       r_endLocation = pl_endLocation body, r_distance = pl_distance body,
                       r_availableSeats = double_of_int (pl_availableSeats body),
                       r_passengers = pl_passengers body,
                       r_status = (case pl_status body of None \<Rightarrow> Scheduled | Some st \<Rightarrow> st),
                       r_currentLocation =
                         (case pl_currentLocation body of None \<Rightarrow> [0, 0] | Some loc \<Rightarrow> loc),
                       r_cancellationReason = pl_cancellationReason body\<rparr>
          in if \<not> schema_ok then throw ValidationError
             else andThen (Ride_create oid ride) (\<lambda>_.
                  andThen (User_save actor
                             (user\<lparr>u_ridesAsDriver := u_ridesAsDriver user @ [oid]\<rparr>)) (\<lambda>_.
                  succeed ride))) s)"

text \<open>\<open>updateRide\<close>. The body is handed to \<open>findByIdAndUpdate\<close> with
  \<open>runValidators: true\<close>. \<open>ride_update\<close> holds the body's plain entries for the fields kept
  here, which Mongoose turns into a \<open>$set\<close> and checks with the update validators, and an
  \<open>$inc\<close> of \<open>availableSeats\<close>, which update validators do not check (they run for
  \<open>$set\<close>, \<open>$unset\<close>, \<open>$push\<close>, \<open>$addToSet\<close>, \<open>$pull\<close> and \<open>$pullAll\<close> only).
  \<open>validators_ok\<close> is the outcome of the update validators on what is not kept here. The
  write goes to the store as it is; the notification type \<open>ride_updated\<close> is then checked
  against the notification schema for each accepted passenger.\<close>

record ride_update =
  up_startLocation :: "coordinates option"
  up_endLocation :: "coordinates option"
  up_distance :: "real option"
  up_availableSeats :: "int option"
  up_passengers :: "passenger list option"
  up_status :: "ride_status option"
  up_currentLocation :: "coordinates option"
  up_cancellationReason :: "string option"
  up_driver :: "user_id option"
  up_inc_availableSeats :: "int option"

definition apply_update :: "ride_update \<Rightarrow> ride \<Rightarrow> ride" where
  "apply_update body r =
     \<lparr>r_driver = (case up_driver body of None \<Rightarrow> r_driver r | Some d \<Rightarrow> d),
      r_fuelEfficiency = r_fuelEfficiency r,
      r_startLocation = (case up_startLocation body of None \<Rightarrow> r_startLocation r | Some l \<Rightarrow> l),
      r_endLocation = (case up_endLocation body of None \<Rightarrow> r_endLocation r | Some l \<Rightarrow> l),
      r_distance = (case up_distance body of None \<Rightarrow> r_distance r | Some d \<Rightarrow> Some d),
      r_availableSeats =
        (case up_availableSeats body of
           Some v \<Rightarrow> double_of_int v
         | None \<Rightarrow>
             (case up_inc_availableSeats body of
                None \<Rightarrow> r_availableSeats r
              | Some k \<Rightarrow> double_add (r_availableSeats r) (double_of_int k))),
      r_passengers = (case up_passengers body of None \<Rightarrow> r_passengers r | Some ps \<Rightarrow> ps),
      r_status = (case up_status body of None \<Rightarrow> r_status r | Some st \<Rightarrow> st),
      r_currentLocation =
        (case up_currentLocation body of None \<Rightarrow> r_currentLocation r | Some l \<Rightarrow> l),
      r_cancellationReason =
        (case up_cancellationReason body of None \<Rightarrow> r_cancellationReason r
         | Some c \<Rightarrow> Some c)\<rparr>"

definition set_seats_valid :: "ride_update \<Rightarrow> bool" where
  "set_seats_valid body =
     (case up_availableSeats body of None \<Rightarrow> True | Some v \<Rightarrow> 1 \<le> double_of_int v)"

fun notify_passengers :: "user_id \<Rightarrow> string \<Rightarrow> ride_id \<Rightarrow> passenger list \<Rightarrow> unit handler" where
  "notify_passengers actor ty rid [] = succeed ()"
| "notify_passengers actor ty rid (p # ps) =
     andThen (notify (p_user p) actor ty rid None) (\<lambda>_. notify_passengers actor ty rid ps)"

definition updateRide :: "bool \<Rightarrow> user_id \<Rightarrow> ride_id \<Rightarrow> ride_update \<Rightarrow> ride handler" where
  "updateRide validators_ok actor rid body = (\<lambda>s.
     case Ride_findById rid s of
       None \<Rightarrow> respond 404 ''Ride not found'' s
     | Some ride \<Rightarrow>
         if r_driver ride \<noteq> actor
         then respond 401 ''Not authorized to update this ride'' s
         else if r_status ride = InProgress \<or> r_status ride = RideCompleted
         then respond 400 (''Cannot update ride that is '' @ ride_status_name (r_status ride)) s
         else if validators_ok \<and> set_seats_valid body
         then
           (if up_availableSeats body \<noteq> None \<and> up_inc_availableSeats body \<noteq> None
            then throw UpdateConflict s
            else
              (let ride' = apply_update body ride
               in andThen (\<lambda>s'. (Inr (), s'\<lparr>rides := (rides s')(rid \<mapsto> ride')\<rparr>)) (\<lambda>_.
                  andThen (notify_passengers actor ''ride_updated'' rid (accepted ride')) (\<lambda>_.
                  succeed ride'))) s)
         else throw ValidationError s)"

text \<open>\<open>respondToRideRequest\<close>. The handler does not consult \<open>validationResult\<close>, so
  \<open>status\<close> is whatever string the body holds; a string outside the passenger status enum
  is rejected when the ride is saved.\<close>

definition respondToRideRequest ::
  "user_id \<Rightarrow> ride_id \<Rightarrow> user_id \<Rightarrow> string \<Rightarrow> ride handler" where
  "respondToRideRequest actor rid userId status = (\<lambda>s.
     case Ride_findById rid s of
       None \<Rightarrow> respond 404 ''Ride not found'' s
     | Some ride \<Rightarrow>
         if r_driver ride \<noteq> actor
         then respond 401 ''Not authorized to update this ride'' s
         else case findIndex (\<lambda>p. p_user p = userId \<and> p_status p = Pending) (r_passengers ride) of
           None \<Rightarrow> respond 404 ''Passenger request not found'' s
         | Some i \<Rightarrow>
             (case passenger_status_enum status of
                None \<Rightarrow> throw ValidationError s
              | Some st \<Rightarrow>
                  (let ride1 = set_passenger_status i st ride;
                       ride2 = (if status = ''accepted''
                                then ride1\<lparr>r_availableSeats :=
                                             double_of_int (r_availableSeats ride1 - 1)\<rparr>
                                else ride1)
                   in andThen (if status = ''accepted''
                               then User_push_ridesAsPassenger userId rid else succeed ()) (\<lambda>_.
                      andThen (Ride_save rid ride2) (\<lambda>_.
                      andThen (notify userId actor
                                 (if status = ''accepted'' then ''ride_accepted'' else ''ride_rejected'')
                                 rid None) (\<lambda>_.
                      succeed ride2)))) s))"

definition cancelRideRequest :: "user_id \<Rightarrow> ride_id \<Rightarrow> unit handler" where
  "cancelRideRequest actor rid = (\<lambda>s.
     case Ride_findById rid s of
       None \<Rightarrow> respond 404 ''Ride not found'' s
     | Some ride \<Rightarrow>
         (case findIndex (\<lambda>p. p_user p = actor) (r_passengers ride) of
            None \<Rightarrow> respond 404 ''You have not requested to join this ride'' s
          | Some i \<Rightarrow>
              (let was_accepted = (p_status (r_passengers ride ! i) = Accepted);
                   ride1 = (if was_accepted
                            then ride\<lparr>r_availableSeats :=
                                        double_of_int (r_availableSeats ride + 1)\<rparr>
                            else ride);
                   ride2 = ride1\<lparr>r_passengers :=
                             take i (r_passengers ride1) @ drop (Suc i) (r_passengers ride1)\<rparr>
               in andThen (if was_accepted
                           then User_pull_ridesAsPassenger actor rid else succeed ()) (\<lambda>_.
                  andThen (Ride_save rid ride2) (\<lambda>_.
                  andThen (notify (r_driver ride) actor ''ride_cancelled'' rid None) (\<lambda>_.
                  succeed ())))) s))"

definition startRide :: "user_id \<Rightarrow> ride_id \<Rightarrow> ride handler" where
  "startRide actor rid = (\<lambda>s.
     case Ride_findById rid s of
       None \<Rightarrow> respond 404 ''Ride not found'' s
     | Some ride \<Rightarrow>
         if r_driver ride \<noteq> actor
         then respond 401 ''Not authorized to start this ride'' s
         else if r_status ride \<noteq> Scheduled
         then respond 400 (''Ride is already '' @ ride_status_name (r_status ride)) s
         else
           (let ride' = ride\<lparr>r_status := InProgress, r_currentLocation := r_startLocation ride\<rparr>
            in andThen (Ride_save rid ride') (\<lambda>_.
               andThen (notify_passengers actor ''ride_started'' rid (accepted ride')) (\<lambda>_.
               succeed ride'))) s)"

definition updateRideLocation :: "user_id \<Rightarrow> ride_id \<Rightarrow> coordinates \<Rightarrow> coordinates handler" where
  "updateRideLocation actor rid coords = (\<lambda>s.
     case Ride_findById rid s of
       None \<Rightarrow> respond 404 ''Ride not found'' s
     | Some ride \<Rightarrow>
         if r_driver ride \<noteq> actor
         then respond 401 ''Not authorized to update this ride location'' s
         else if r_status ride \<noteq> InProgress
         then respond 400 ''Can only update location for rides in progress'' s
         else
           (let ride' = ride\<lparr>r_currentLocation := coords\<rparr>
            in andThen (Ride_save rid ride') (\<lambda>_. succeed coords)) s)"

text \<open>\<open>completeRide\<close>. The impact figures are computed once from the route distance, the
  vehicle's fuel efficiency and the number of accepted passengers; the driver is credited
  first, then each accepted passenger in list order, each passenger document being read
  from the store, increased and saved.\<close>

definition fuelSaved_of :: "ride \<Rightarrow> real" where
  "fuelSaved_of r =
     (js_or (r_distance r) 0 * real (length (accepted r))) / js_or (r_fuelEfficiency r) 15"

definition co2Saved_of :: "ride \<Rightarrow> real" where
  "co2Saved_of r = fuelSaved_of r * 2.3"

definition treesEquivalent_of :: "ride \<Rightarrow> real" where
  "treesEquivalent_of r = co2Saved_of r / 22"

text \<open>The three \<open>+=\<close> on a user's \<open>environmentalImpact\<close>.\<close>

definition add_impact :: "real \<Rightarrow> real \<Rightarrow> real \<Rightarrow> user \<Rightarrow> user" where
  "add_impact co2 fuel trees u =
     u\<lparr>u_co2Saved := u_co2Saved u + co2, u_fuelSaved := u_fuelSaved u + fuel,
       u_treesEquivalent := u_treesEquivalent u + trees\<rparr>"

fun settle_passengers ::
  "user_id \<Rightarrow> ride_id \<Rightarrow> real \<Rightarrow> real \<Rightarrow> real \<Rightarrow> nat \<Rightarrow> passenger list \<Rightarrow> unit handler" where
  "settle_passengers actor rid co2 fuel trees n [] = succeed ()"
| "settle_passengers actor rid co2 fuel trees n (p # ps) =
     andThen (notify (p_user p) actor ''ride_completed'' rid None) (\<lambda>_. (\<lambda>s.
       case User_findById (p_user p) s of
         None \<Rightarrow> throw TypeError s
       | Some passengerUser \<Rightarrow>
           andThen (User_save (p_user p)
                      (add_impact (co2 / real n) (fuel / real n) (trees / real n) passengerUser))
             (\<lambda>_. settle_passengers actor rid co2 fuel trees n ps) s))"

definition completeRide :: "user_id \<Rightarrow> ride_id \<Rightarrow> ride handler" where
  "completeRide actor rid = (\<lambda>s.
     case Ride_findById rid s of
       None \<Rightarrow> respond 404 ''Ride not found'' s
     | Some ride \<Rightarrow>
         if r_driver ride \<noteq> actor
         then respond 401 ''Not authorized to complete this ride'' s
         else if r_status ride \<noteq> InProgress
         then respond 400 (''Ride must be in progress to complete, current status: ''
                            @ ride_status_name (r_status ride)) s
         else
           (let ride' = ride\<lparr>r_status := RideCompleted, r_currentLocation := r_endLocation ride\<rparr>
            in andThen (Ride_save rid ride') (\<lambda>_. (\<lambda>s1.
               case User_findById (r_driver ride') s1 of
                 None \<Rightarrow> throw TypeError s1
               | Some driver \<Rightarrow>
                   (let passengers = accepted ride';
                        passengerCount = length passengers;
                        fuelSaved = fuelSaved_of ride';
                        co2Saved = co2Saved_of ride';
                        treesEquivalent = treesEquivalent_of ride'
                    in andThen (User_save (r_driver ride')
                                  (add_impact co2Saved fuelSaved treesEquivalent driver)) (\<lambda>_.
                       andThen (settle_passengers actor rid co2Saved fuelSaved treesEquivalent
                                  passengerCount passengers) (\<lambda>_.
                       succeed ride'))) s1))) s)"

text \<open>\<open>cancelRide\<close>. The driver cancels the whole ride; an accepted passenger withdraws.
  In the passenger branch the notification is created before the ride is saved.\<close>

fun retract_passengers :: "user_id \<Rightarrow> ride_id \<Rightarrow> passenger list \<Rightarrow> unit handler" where
  "retract_passengers actor rid [] = succeed ()"
| "retract_passengers actor rid (p # ps) =
     andThen (notify (p_user p) actor ''ride_cancelled'' rid None) (\<lambda>_.
     andThen (User_pull_ridesAsPassenger (p_user p) rid) (\<lambda>_.
     retract_passengers actor rid ps))"

definition cancelRide :: "user_id \<Rightarrow> ride_id \<Rightarrow> string \<Rightarrow> ride handler" where
  "cancelRide actor rid reason = (\<lambda>s.
     case Ride_findById rid s of
       None \<Rightarrow> respond 404 ''Ride not found'' s
     | Some ride \<Rightarrow>
         (let isDriver = (r_driver ride = actor);
              isPassenger = list_ex (\<lambda>p. p_user p = actor \<and> p_status p = Accepted)
                              (r_passengers ride)
          in if \<not> isDriver \<and> \<not> isPassenger
             then respond 401 ''Not authorized to cancel this ride'' s
             else if r_status ride = RideCompleted \<or> r_status ride = RideCancelled
             then respond 400 (''Ride is already '' @ ride_status_name (r_status ride)) s
             else if isDriver
             then
               (let ride' = ride\<lparr>r_status := RideCancelled, r_cancellationReason := Some reason\<rparr>
                in andThen (retract_passengers actor rid (accepted ride')) (\<lambda>_.
                   andThen (User_pull_ridesAsDriver actor rid) (\<lambda>_.
                   andThen (Ride_save rid ride') (\<lambda>_.
                   succeed ride')))) s
             else
               (case findIndex (\<lambda>p. p_user p = actor) (r_passengers ride) of
                  None \<Rightarrow> throw TypeError s
                | Some i \<Rightarrow>
                    (let ride1 = set_passenger_status i PassengerCancelled ride;
                         ride' = ride1\<lparr>r_availableSeats :=
                                         double_of_int (r_availableSeats ride1 + 1)\<rparr>
                     in andThen (notify (r_driver ride) actor ''passenger_cancelled'' rid None) (\<lambda>_.
                        andThen (User_pull_ridesAsPassenger actor rid) (\<lambda>_.
                        andThen (Ride_save rid ride') (\<lambda>_.
                        succeed ride')))) s)))"

section \<open>Payment controller\<close>

text \<open>\<open>Transaction.create\<close>: the document is validated against the transaction schema
  (the payment method must be a member of its enum) and appended to the collection.\<close>

definition Transaction_create ::
  "user_id \<Rightarrow> user_id \<Rightarrow> ride_id option \<Rightarrow> real \<Rightarrow> transaction_type \<Rightarrow> transaction_status
     \<Rightarrow> string \<Rightarrow> (transaction_id \<times> transaction) handler" where
  "Transaction_create sender receiver ride_ref amount ty st paymentMethod = (\<lambda>s.
     case paymentMethod_enum paymentMethod of
       None \<Rightarrow> throw ValidationError s
     | Some m \<Rightarrow>
         (let t = \<lparr>t_sender = sender, t_receiver = receiver, t_ride = ride_ref,
                   t_amount = amount, t_type = ty, t_status = st, t_paymentMethod = m\<rparr>
          in (Inr (length (transactions s), t), s\<lparr>transactions := transactions s @ [t]\<rparr>)))"

definition Transaction_findById :: "transaction_id \<Rightarrow> db \<Rightarrow> transaction option" where
  "Transaction_findById tid s =
     (if tid < length (transactions s) then Some (transactions s ! tid) else None)"

definition Transaction_save :: "transaction_id \<Rightarrow> transaction \<Rightarrow> unit handler" where
  "Transaction_save tid t = (\<lambda>s. (Inr (), s\<lparr>transactions := (transactions s)[tid := t]\<rparr>))"

definition transaction_status_name :: "transaction_status \<Rightarrow> string" where
  "transaction_status_name st = (case st of TxPending \<Rightarrow> ''pending'' | TxCompleted \<Rightarrow> ''completed''
     | TxFailed \<Rightarrow> ''failed'' | TxRefunded \<Rightarrow> ''refunded'')"

text \<open>
  The amount of a payment request. The routes check it with \<open>isNumeric()\<close>, which a JSON
  number passes and a JSON string of digits passes too, and the handlers use the value as
  it came. With a string, \<open><\<close> and \<open>-=\<close> read it as a number, Mongoose casts it to a
  number where it is stored in a transaction or a fare, and \<open>balance += amount\<close> appends
  it to the balance's decimal text, which Mongoose casts back to a number when it is
  assigned to the wallet. The two conversions are parameters of the handlers:
  \<open>js_String\<close> is \<open>String\<close> on a number and \<open>js_Number\<close> is \<open>Number\<close> on a string, \<open>None\<close>
  for NaN, which no number field accepts.

  A number of the payload, a balance and a stored amount are IEEE-754 doubles, kept as
  the reals they denote, \<open>2 ^ 1024\<close> and its negative standing for the two infinities.
  \<open>double_round x\<close> is the double nearest to the real \<open>x\<close>, ties going to the even
  significand, and \<open>double_plus\<close> is \<open>+\<close> on doubles, \<open>None\<close> for the NaN of two opposite
  infinities; \<open>x - y\<close> on doubles is \<open>double_plus x (- y)\<close>.
\<close>

definition double_round :: "real \<Rightarrow> real" where
  "double_round x =
     (if x = 0 then 0
      else
        (let a = \<bar>x\<bar>;
             e = (if 1 \<le> a then int (bit_length \<lfloor>a\<rfloor>) - 1
                  else - int (bit_length (\<lceil>1 / a\<rceil> - 1)));
             k = max e (- 1022) - 52;
             u = (if 0 \<le> k then 2 ^ nat k else 1 / 2 ^ nat (- k));
             q = \<lfloor>a / u\<rfloor>;
             r = a / u - of_int q;
             q' = (if 1 / 2 < r \<or> (r = 1 / 2 \<and> odd q) then q + 1 else q);
             y = of_int q' * u
         in sgn x * (if 2 ^ 1024 \<le> y then 2 ^ 1024 else y)))"

definition double_plus :: "real \<Rightarrow> real \<Rightarrow> real option" where
  "double_plus x y =
     (if \<bar>x\<bar> = 2 ^ 1024 then (if y = - x then None else Some x)
      else if \<bar>y\<bar> = 2 ^ 1024 then Some y
      else Some (double_round (x + y)))"

datatype json_amount = JNumber real | JString string

record js_runtime =
  js_String :: "real \<Rightarrow> string"
  js_Number :: "string \<Rightarrow> real option"

definition amount_Number :: "js_runtime \<Rightarrow> json_amount \<Rightarrow> real option" where
  "amount_Number js amount = (case amount of JNumber v \<Rightarrow> Some v | JString str \<Rightarrow> js_Number js str)"

definition plus_assign :: "js_runtime \<Rightarrow> real \<Rightarrow> json_amount \<Rightarrow> real option" where
  "plus_assign js balance amount =
     (case amount of
        JNumber v \<Rightarrow> double_plus balance v
      | JString str \<Rightarrow> js_Number js (js_String js balance @ str))"

text \<open>\<open>addFundsToWallet\<close>. The route admits the payment methods card, upi and
  netbanking; \<open>fields_ok\<close> stands for the remaining checks of the route. A balance that
  cannot be cast makes \<open>user.save()\<close> fail, after the transaction was created.\<close>

definition addFundsToWallet ::
  "js_runtime \<Rightarrow> bool \<Rightarrow> user_id \<Rightarrow> json_amount \<Rightarrow> string \<Rightarrow> (transaction \<times> real) handler" where
  "addFundsToWallet js fields_ok actor amount paymentMethod = (\<lambda>s.
     if \<not> (fields_ok \<and> paymentMethod \<in> set [''card'', ''upi'', ''netbanking''])
     then (Inl ValidationErrors, s)
     else case amount_Number js amount of
       None \<Rightarrow> throw ValidationError s
     | Some v \<Rightarrow>
       andThen (Transaction_create actor actor None v WalletTopup TxCompleted paymentMethod)
         (\<lambda>(tid, transaction). (\<lambda>s1.
            case User_findById actor s1 of
              None \<Rightarrow> throw TypeError s1
            | Some user \<Rightarrow>
                (case plus_assign js (u_balance user) amount of
                   None \<Rightarrow> throw ValidationError s1
                 | Some balance' \<Rightarrow>
                     (let user' = user\<lparr>u_balance := balance',
                                       u_transactions := u_transactions user @ [tid]\<rparr>
                      in andThen (User_save actor user') (\<lambda>_.
                         succeed (transaction, u_balance user'))) s1))) s)"

text \<open>\<open>withdrawFunds\<close>. The handler only compares the amount with \<open><\<close>, subtracts it
  with \<open>-=\<close> and stores it in a transaction, so \<open>amount\<close> is the number the payload value
  denotes. A balance that is NaN makes \<open>user.save()\<close> fail.\<close>

definition withdrawFunds :: "bool \<Rightarrow> user_id \<Rightarrow> real \<Rightarrow> (transaction \<times> real) handler" where
  "withdrawFunds fields_ok actor amount = (\<lambda>s.
     if \<not> fields_ok then (Inl ValidationErrors, s)
     else case User_findById actor s of
       None \<Rightarrow> throw TypeError s
     | Some user \<Rightarrow>
         if u_balance user < amount
         then respond 400 ''Insufficient balance'' s
         else
           andThen (Transaction_create actor actor None amount WalletWithdrawal TxPending
                      ''bank_transfer'')
             (\<lambda>(tid, transaction).
                case double_plus (u_balance user) (- amount) of
                  None \<Rightarrow> throw ValidationError
                | Some balance' \<Rightarrow>
                    (let user' = user\<lparr>u_balance := balance',
                                      u_transactions := u_transactions user @ [tid]\<rparr>
                     in andThen (User_save actor user') (\<lambda>_.
                        succeed (transaction, u_balance user')))) s)"

definition set_passenger_fare :: "nat \<Rightarrow> fare \<Rightarrow> ride \<Rightarrow> ride" where
  "set_passenger_fare i f r =
     r\<lparr>r_passengers := (r_passengers r)[i := (r_passengers r ! i)\<lparr>p_fare := f\<rparr>]\<rparr>"

definition initiateRidePayment ::
  "js_runtime \<Rightarrow> bool \<Rightarrow> user_id \<Rightarrow> ride_id \<Rightarrow> json_amount \<Rightarrow> string \<Rightarrow> transaction handler" where
  "initiateRidePayment js fields_ok actor rideId amount paymentMethod = (\<lambda>s.
     if \<not> (fields_ok \<and>
            paymentMethod \<in> set [''wallet'', ''card'', ''upi'', ''netbanking'', ''cash''])
     then (Inl ValidationErrors, s)
     else case Ride_findById rideId s of
       None \<Rightarrow> respond 404 ''Ride not found'' s
     | Some ride \<Rightarrow>
         (case findIndex (\<lambda>p. p_user p = actor \<and> p_status p = Accepted) (r_passengers ride) of
            None \<Rightarrow> respond 401 ''You are not a passenger in this ride'' s
          | Some i \<Rightarrow>
              if f_status (p_fare (r_passengers ride ! i)) = FarePaid
              then respond 400 ''Payment already made for this ride'' s
              else if paymentMethod = ''wallet''
              then
                (case User_findById actor s of
                   None \<Rightarrow> throw TypeError s
                 | Some user \<Rightarrow>
                    (case amount_Number js amount of
                       None \<Rightarrow> throw ValidationError s
                     | Some v \<Rightarrow>
                     if u_balance user < v
                     then respond 400 ''Insufficient wallet balance'' s
                     else
                       andThen (Transaction_create actor (r_driver ride) (Some rideId) v
                                  RidePayment TxCompleted ''wallet'')
                         (\<lambda>(tid, transaction).
                       andThen (case double_plus (u_balance user) (- v) of
                                  None \<Rightarrow> throw ValidationError
                                | Some balance' \<Rightarrow>
                                    User_save actor
                                      (user\<lparr>u_balance := balance',
                                            u_transactions := u_transactions user @ [tid]\<rparr>))
                         (\<lambda>_. (\<lambda>s1.
                       case User_findById (r_driver ride) s1 of
                         None \<Rightarrow> throw TypeError s1
                       | Some driver \<Rightarrow>
                          (case plus_assign js (u_balance driver) amount of
                             None \<Rightarrow> throw ValidationError s1
                           | Some balance' \<Rightarrow>
                           andThen (User_save (r_driver ride)
                                      (driver\<lparr>u_balance := balance',
                                              u_transactions := u_transactions driver @ [tid]\<rparr>)) (\<lambda>_.
                           andThen (Ride_save rideId (set_passenger_fare i
                                      \<lparr>f_amount = Some v, f_status = FarePaid\<rparr> ride)) (\<lambda>_.
                           andThen (notify (r_driver ride) actor ''payment_received'' rideId
                                      (Some tid)) (\<lambda>_.
                           succeed transaction))) s1)))) s))
              else
                (case amount_Number js amount of
                   None \<Rightarrow> throw ValidationError s
                 | Some v \<Rightarrow>
                andThen (Transaction_create actor (r_driver ride) (Some rideId) v
                           RidePayment TxPending paymentMethod)
                  (\<lambda>(tid, transaction).
                andThen (Ride_save rideId (set_passenger_fare i
                           \<lparr>f_amount = Some v, f_status = FarePending\<rparr> ride)) (\<lambda>_.
                succeed transaction)) s)))"

definition completeRidePayment ::
  "user_id \<Rightarrow> ride_id \<Rightarrow> transaction_id \<Rightarrow> transaction handler" where
  "completeRidePayment actor rideId transactionId = (\<lambda>s.
     case Transaction_findById transactionId s of
       None \<Rightarrow> respond 404 ''Transaction not found'' s
     | Some transaction \<Rightarrow>
         if t_sender transaction \<noteq> actor
         then respond 401 ''Not authorized to complete this transaction'' s
         else if t_status transaction \<noteq> TxPending
         then respond 400 (''Transaction is already ''
                            @ transaction_status_name (t_status transaction)) s
         else
           (let transaction' = transaction\<lparr>t_status := TxCompleted\<rparr>
            in andThen (Transaction_save transactionId transaction') (\<lambda>_. (\<lambda>s1.
               case Ride_findById rideId s1 of
                 None \<Rightarrow> respond 404 ''Ride not found'' s1
               | Some ride \<Rightarrow>
                   andThen (case findIndex (\<lambda>p. p_user p = actor) (r_passengers ride) of
                              None \<Rightarrow> succeed ()
                            | Some i \<Rightarrow>
                                Ride_save rideId (set_passenger_fare i
                                  ((p_fare (r_passengers ride ! i))\<lparr>f_status := FarePaid\<rparr>) ride))
                     (\<lambda>_. (\<lambda>s2.
                   case User_findById (r_driver ride) s2 of
                     None \<Rightarrow> throw TypeError s2
                   | Some driver \<Rightarrow>
                       (case double_plus (u_balance driver) (t_amount transaction') of
                          None \<Rightarrow> throw ValidationError s2
                        | Some balance' \<Rightarrow>
                            andThen (User_save (r_driver ride)
                                       (driver\<lparr>u_balance := balance',
                                               u_transactions :=
                                                 u_transactions driver @ [transactionId]\<rparr>)) (\<lambda>_.
                            andThen (notify (r_driver ride) actor ''payment_received'' rideId
                                       (Some transactionId)) (\<lambda>_.
                            succeed transaction')) s2))) s1))) s)"

section \<open>User controller: ratings\<close>

text \<open>\<open>submitRating\<close>. The route's \<open>isInt({min: 1, max: 5})\<close> check on the rating is
  computed; \<open>fields_ok\<close> stands for the remaining checks.\<close>

definition role_average :: "review_role \<Rightarrow> review list \<Rightarrow> real" where
  "role_average role reviews =
     (let ratings = filter (\<lambda>r. rv_role r = role) reviews;
          totalRating = foldl (\<lambda>sum r. sum + rv_rating r) 0 ratings
      in real_of_int totalRating / real (length ratings))"

definition role_count :: "review_role \<Rightarrow> review list \<Rightarrow> nat" where
  "role_count role reviews = length (filter (\<lambda>r. rv_role r = role) reviews)"

definition submitRating ::
  "bool \<Rightarrow> user_id \<Rightarrow> user_id \<Rightarrow> ride_id \<Rightarrow> review_role \<Rightarrow> int \<Rightarrow> string \<Rightarrow> unit handler" where
  "submitRating fields_ok actor userId rideId role rating comment = (\<lambda>s.
     if \<not> (fields_ok \<and> 1 \<le> rating \<and> rating \<le> 5) then (Inl ValidationErrors, s)
     else case User_findById userId s of
       None \<Rightarrow> respond 404 ''User not found'' s
     | Some userToRate \<Rightarrow>
         (let reviews' = u_reviews userToRate @
                [\<lparr>rv_reviewer = actor, rv_role = role, rv_rating = rating, rv_comment = comment\<rparr>];
              rated = (if role = AsDriver
                       then userToRate\<lparr>u_reviews := reviews',
                                        u_driverAverage := role_average AsDriver reviews',
                                        u_driverCount := role_count AsDriver reviews'\<rparr>
                       else userToRate\<lparr>u_reviews := reviews',
                                        u_passengerAverage := role_average AsPassenger reviews',
                                        u_passengerCount := role_count AsPassenger reviews'\<rparr>)
          in andThen (User_save userId rated) (\<lambda>_.
             andThen (notify userId actor ''rating_received'' rideId None) (\<lambda>_.
             succeed ()))) s)"

section \<open>Example states\<close>

text \<open>A small store used to instantiate the theorems below: user 1 drives ride 0, users 2
  and 3 are riders.\<close>

definition demo_user :: user where
  "demo_user = \<lparr>u_fuelEfficiency = Some 10, u_balance = 100, u_transactions = [],
     u_driverAverage = 0, u_driverCount = 0, u_passengerAverage = 0, u_passengerCount = 0,
     u_reviews = [], u_ridesAsDriver = [], u_ridesAsPassenger = [],
     u_co2Saved = 0, u_fuelSaved = 0, u_treesEquivalent = 0\<rparr>"

definition demo_ride :: ride where
  "demo_ride = \<lparr>r_driver = 1, r_fuelEfficiency = Some 10, r_startLocation = [0, 0],
     r_endLocation = [3, 4], r_distance = Some 100, r_availableSeats = 2, r_passengers = [],
     r_status = Scheduled, r_currentLocation = [0, 0], r_cancellationReason = None\<rparr>"

definition demo_db :: db where
  "demo_db = \<lparr>rides = [0 \<mapsto> demo_ride],
     users = [1 \<mapsto> demo_user\<lparr>u_ridesAsDriver := [0]\<rparr>, 2 \<mapsto> demo_user, 3 \<mapsto> demo_user],
     transactions = [], notifications = []\<rparr>"

section \<open>Reading the rating record by role\<close>

definition rating_average :: "review_role \<Rightarrow> user \<Rightarrow> real" where
  "rating_average role u = (case role of AsDriver \<Rightarrow> u_driverAverage u | AsPassenger \<Rightarrow> u_passengerAverage u)"

definition rating_count :: "review_role \<Rightarrow> user \<Rightarrow> nat" where
  "rating_count role u = (case role of AsDriver \<Rightarrow> u_driverCount u | AsPassenger \<Rightarrow> u_passengerCount u)"

definition reviews_of_role :: "review_role \<Rightarrow> user \<Rightarrow> review list" where
  "reviews_of_role role u = filter (\<lambda>r. rv_role r = role) (u_reviews u)"

definition new_review :: "user_id \<Rightarrow> review_role \<Rightarrow> int \<Rightarrow> string \<Rightarrow> review" where
  "new_review actor role rating comment =
     \<lparr>rv_reviewer = actor, rv_role = role, rv_rating = rating, rv_comment = comment\<rparr>"

text \<open>A store with one pending card payment of 50 from user 2 to user 1 for ride 0.\<close>

definition demo_payment :: transaction where
  "demo_payment = \<lparr>t_sender = 2, t_receiver = 1, t_ride = Some 0, t_amount = 50,
     t_type = RidePayment, t_status = TxPending, t_paymentMethod = Card\<rparr>"

definition demo_pay_db :: db where
  "demo_pay_db = demo_db\<lparr>transactions := [demo_payment]\<rparr>"

text \<open>Ride 0 under way with users 2 and 3 accepted: 100 km at 10 km per litre.\<close>

definition demo_trip :: ride where
  "demo_trip = demo_ride\<lparr>r_status := InProgress,
     r_passengers := [(join_entry 2 [1, 1] [2, 2])\<lparr>p_status := Accepted\<rparr>,
                      (join_entry 3 [1, 1] [2, 2])\<lparr>p_status := Accepted\<rparr>]\<rparr>"

definition demo_trip_db :: db where
  "demo_trip_db = demo_db\<lparr>rides := [0 \<mapsto> demo_trip]\<rparr>"

section \<open>Seat accounting along a ride's history\<close>

text \<open>The ride operations of the life cycle, as requests to the ride controller.\<close>

datatype ride_op =
    OpCreate bool bool user_id ride_id ride_payload
  | OpRequest bool user_id ride_id coordinates coordinates
  | OpRespond user_id ride_id user_id string
  | OpCancelRequest user_id ride_id
  | OpStart user_id ride_id
  | OpComplete user_id ride_id
  | OpCancel user_id ride_id string
  | OpUpdateLocation user_id ride_id coordinates

text \<open>The store after an operation, whether the handler answered with success or not.\<close>

fun apply_op :: "ride_op \<Rightarrow> db \<Rightarrow> db" where
  "apply_op (OpCreate ok sok actor oid body) s = snd (createRide ok sok actor oid body s)"
| "apply_op (OpRequest ok actor rid pickup dropoff) s = snd (requestRide ok actor rid pickup dropoff s)"
| "apply_op (OpRespond actor rid userId status) s = snd (respondToRideRequest actor rid userId status s)"
| "apply_op (OpCancelRequest actor rid) s = snd (cancelRideRequest actor rid s)"
| "apply_op (OpStart actor rid) s = snd (startRide actor rid s)"
| "apply_op (OpComplete actor rid) s = snd (completeRide actor rid s)"
| "apply_op (OpCancel actor rid reason) s = snd (cancelRide actor rid reason s)"
| "apply_op (OpUpdateLocation actor rid coords) s = snd (updateRideLocation actor rid coords s)"

text \<open>\<open>ride_history rid body s\<close>: ride \<open>rid\<close> was created from the payload \<open>body\<close> by a
  successful \<open>createRide\<close> on some store, and \<open>s\<close> is the store after any sequence of ride
  operations since, on this ride or on others.\<close>

inductive ride_history :: "ride_id \<Rightarrow> ride_payload \<Rightarrow> db \<Rightarrow> bool"
  for rid :: ride_id and body :: ride_payload where
  created: "createRide ok sok actor rid body s0 = (Inr r, s) \<Longrightarrow> ride_history rid body s"
| step: "ride_history rid body s \<Longrightarrow> ride_history rid body (apply_op op s)"


definition seat_invariant :: "int \<Rightarrow> ride \<Rightarrow> bool" where
  "seat_invariant c r \<longleftrightarrow>
     0 \<le> r_availableSeats r \<and> r_availableSeats r + int (length (accepted r)) = c"


text \<open>An effect that leaves the ride collection alone.\<close>

definition keeps_rides :: "'a handler \<Rightarrow> bool" where
  "keeps_rides m \<longleftrightarrow> (\<forall>s. rides (snd (m s)) = rides s)"

text \<open>The answer is a 400 with a message: how the controllers report a conflict or an
  illegal transition.\<close>

definition is_conflict_answer :: "error + 'a \<Rightarrow> bool" where
  "is_conflict_answer res = (case res of Inl (Http code msg) \<Rightarrow> code = 400 | _ \<Rightarrow> False)"

text \<open>Creation payloads: a ride with two seats; the same with user 2 already entered as
  accepted; the same with one seat.\<close>

definition demo_payload :: ride_payload where
  "demo_payload = \<lparr>pl_startLocation = [0, 0], pl_endLocation = [3, 4], pl_distance = Some 100,
     pl_availableSeats = 2, pl_passengers = [], pl_status = None, pl_currentLocation = None,
     pl_cancellationReason = None\<rparr>"


definition demo_one_seat_payload :: ride_payload where
  "demo_one_seat_payload = demo_payload\<lparr>pl_availableSeats := 1\<rparr>"



text \<open>A history that ends with no seat left and a request pending: user 1 creates ride 1
  with one seat, user 2 asks to join, and the driver sends an update whose body is
  \<open>{"$inc": {"availableSeats": -1}}\<close>.\<close>

definition demo_decrement :: ride_update where
  "demo_decrement = \<lparr>up_startLocation = None, up_endLocation = None, up_distance = None,
     up_availableSeats = None, up_passengers = None, up_status = None,
     up_currentLocation = None, up_cancellationReason = None, up_driver = None,
     up_inc_availableSeats = Some (- 1)\<rparr>"

definition demo_zero_db :: db where
  "demo_zero_db =
     snd (updateRide True 1 1 demo_decrement
       (snd (requestRide True 2 1 [1, 1] [2, 2]
         (snd (createRide True True 1 1 demo_one_seat_payload demo_db)))))"

section \<open>The wallet ledger\<close>

definition sum_amounts :: "(transaction \<Rightarrow> bool) \<Rightarrow> transaction list \<Rightarrow> real" where
  "sum_amounts P txs = sum_list (map t_amount (filter P txs))"


text \<open>The wallet movements the handlers book: a completed top-up and a completed ride
  payment credit the receiver, a completed ride payment made from the wallet debits the
  sender.\<close>

definition wallet_net :: "user_id \<Rightarrow> transaction list \<Rightarrow> real" where
  "wallet_net u txs =
     sum_amounts (\<lambda>t. t_status t = TxCompleted \<and> t_type t = WalletTopup \<and> t_receiver t = u) txs
   + sum_amounts (\<lambda>t. t_status t = TxCompleted \<and> t_type t = RidePayment \<and> t_receiver t = u) txs
   - sum_amounts (\<lambda>t. t_status t = TxCompleted \<and> t_type t = RidePayment
                       \<and> t_paymentMethod t = Wallet \<and> t_sender t = u) txs"

definition wallet_consistent :: "db \<Rightarrow> bool" where
  "wallet_consistent s \<longleftrightarrow>
     (\<forall>u usr. users s u = Some usr \<longrightarrow> u_balance usr = wallet_net u (transactions s))"

text \<open>A balance update by \<open>v\<close> is exact in a store when, for every wallet of the store,
  adding \<open>v\<close>, subtracting \<open>v\<close>, and adding \<open>v\<close> back after subtracting it give the real
  sum: no rounding, no infinity.\<close>

definition exact_plus :: "real \<Rightarrow> real \<Rightarrow> bool" where
  "exact_plus x y \<longleftrightarrow> double_plus x y = Some (x + y)"


text \<open>A fragment of the JavaScript conversions for the examples: the decimal text of a
  non-negative whole number, and the number a text of digits denotes.\<close>

fun decimal_text :: "nat \<Rightarrow> string" where
  "decimal_text n =
     (if n < 10 then [''0123456789'' ! n]
      else decimal_text (n div 10) @ [''0123456789'' ! (n mod 10)])"

fun digits_value :: "nat \<Rightarrow> string \<Rightarrow> nat option" where
  "digits_value acc [] = Some acc"
| "digits_value acc (c # cs) =
     (case findIndex (\<lambda>d. d = c) ''0123456789'' of
        None \<Rightarrow> None
      | Some d \<Rightarrow> digits_value (10 * acc + d) cs)"

definition demo_js :: js_runtime where
  "demo_js = \<lparr>js_String = (\<lambda>x. decimal_text (nat \<lfloor>x\<rfloor>)),
               js_Number = (\<lambda>str. map_option (\<lambda>n. double_round (real n)) (digits_value 0 str))\<rparr>"

text \<open>The example store with empty wallets and an empty ledger, and the same store with
  the pending card payment of 50 from user 2 to user 1.\<close>

definition demo_empty_db :: db where
  "demo_empty_db = demo_db\<lparr>users := [1 \<mapsto> demo_user\<lparr>u_balance := 0\<rparr>,
                                      2 \<mapsto> demo_user\<lparr>u_balance := 0\<rparr>]\<rparr>"





text \<open>The trip of ride 0 after user 2 has started a card payment of 50: the handler stores
  the pending transaction 0.\<close>

definition demo_card_db :: db where
  "demo_card_db = snd (initiateRidePayment demo_js True 2 0 (JNumber 50) ''card'' demo_trip_db)"

section \<open>Basic facts about the effects\<close>

declare bit_length.simps [simp del]

declare decimal_text.simps [simp del]

lemma bit_length_numeral [simp]:
  "bit_length 0 = 0"
  "bit_length 1 = 1"
  "bit_length (- numeral n) = 0"
  "bit_length (numeral Num.One) = 1"
  "bit_length (numeral (Num.Bit0 n)) = Suc (bit_length (numeral n))"
  "bit_length (numeral (Num.Bit1 n)) = Suc (bit_length (numeral n))"
proof -
  show "bit_length 0 = 0" by (simp add: bit_length.simps)
  show "bit_length 1 = 1" by (subst bit_length.simps, subst bit_length.simps) simp
  show "bit_length (- numeral n) = 0" by (simp add: bit_length.simps)
  show "bit_length (numeral Num.One) = 1" by (subst bit_length.simps, subst bit_length.simps) simp
  show "bit_length (numeral (Num.Bit0 n)) = Suc (bit_length (numeral n))"
    by (subst bit_length.simps) simp
  show "bit_length (numeral (Num.Bit1 n)) = Suc (bit_length (numeral n))"
    by (subst bit_length.simps) simp
qed

lemma double_of_int_exact: "\<bar>x\<bar> \<le> 2 ^ 53 \<Longrightarrow> double_of_int x = x"
  by (simp add: double_of_int_def)

lemma double_of_int_small [simp]:
  "double_of_int 0 = 0" "double_of_int 1 = 1" "double_of_int 2 = 2" "double_of_int (- 1) = - 1"
  by (simp_all add: double_of_int_def)

lemma notification_type_ok [simp]:
  "''ride_request'' \<in> set notification_type_enum"
  "''ride_accepted'' \<in> set notification_type_enum"
  "''ride_rejected'' \<in> set notification_type_enum"
  "''ride_cancelled'' \<in> set notification_type_enum"
  "''ride_started'' \<in> set notification_type_enum"
  "''ride_completed'' \<in> set notification_type_enum"
  "''payment_received'' \<in> set notification_type_enum"
  "''rating_received'' \<in> set notification_type_enum"
  "''passenger_cancelled'' \<notin> set notification_type_enum"
  by (simp_all add: notification_type_enum_def)

lemma notify_valid:
  "ty \<in> set notification_type_enum \<Longrightarrow>
   notify r a ty rid tx s = (Inr (), s\<lparr>notifications := notifications s @
      [\<lparr>n_recipient = r, n_sender = a, n_type = ty, n_ride = Some rid, n_transaction = tx\<rparr>]\<rparr>)"
  by (simp add: notify_def Notification_create_def)



section \<open>Lists and indices\<close>

lemma findIndex_None_iff: "findIndex P xs = None \<longleftrightarrow> (\<forall>x \<in> set xs. \<not> P x)"
  by (simp add: findIndex_def list_ex_iff)



lemma findIndex_exists: "\<exists>x \<in> set xs. P x \<Longrightarrow> \<exists>i. findIndex P xs = Some i"
  by (simp add: findIndex_def list_ex_iff)




section \<open>Small facts about the ride effects\<close>

lemma passenger_status_enum_simps [simp]:
  "passenger_status_enum ''accepted'' = Some Accepted"
  "passenger_status_enum ''rejected'' = Some Rejected"
  by (simp_all add: passenger_status_enum_def)


lemma User_push_ridesAsPassenger_frame [simp]:
  "fst (User_push_ridesAsPassenger uid rid s) = Inr ()"
  "rides (snd (User_push_ridesAsPassenger uid rid s)) = rides s"
  by (simp_all add: User_push_ridesAsPassenger_def split: option.splits)

section \<open>Requesting to join a ride\<close>





section \<open>Ratings\<close>

lemma foldl_rating_sum:
  "foldl (\<lambda>sum r. sum + rv_rating r) a xs = a + sum_list (map rv_rating xs)"
  by (induction xs arbitrary: a) simp_all

lemma role_average_mean:
  "role_average role reviews =
     real_of_int (sum_list (map rv_rating (filter (\<lambda>r. rv_role r = role) reviews)))
       / real (length (filter (\<lambda>r. rv_role r = role) reviews))"
  by (simp add: role_average_def foldl_rating_sum Let_def)

text \<open>
  C9. \<open>submitRating\<close> with a valid rating appends the review to the rated user's review
  list, then stores as the average for the review's role the arithmetic mean of the
  ratings of all reviews of that role in the full list, and as the count their number.
  The witness submits the ratings 4 and then 2 for the same user and role: the average
  is 3 and the count 2.
\<close>

theorem submitRating_recomputes_mean:
  assumes "users s userId = Some u" and "1 \<le> rating" and "rating \<le> 5"
  shows "fst (submitRating True actor userId rideId role rating comment s) = Inr ()
       \<and> (\<exists>u'. users (snd (submitRating True actor userId rideId role rating comment s)) userId
                  = Some u'
              \<and> u_reviews u' = u_reviews u @ [new_review actor role rating comment]
              \<and> rating_average role u'
                  = real_of_int (sum_list (map rv_rating (reviews_of_role role u')))
                      / real (length (reviews_of_role role u'))
              \<and> rating_count role u' = length (reviews_of_role role u'))"
  using assms
  by (cases role)
     (simp_all add: submitRating_def User_findById_def andThen_def succeed_def User_save_def
       notify_valid Let_def rating_average_def rating_count_def reviews_of_role_def
       new_review_def role_average_mean role_count_def)

theorem submitRating_recomputes_mean_witness:
  "users demo_db 2 = Some demo_user
   \<and> fst (submitRating True 3 2 0 AsDriver 2 []
            (snd (submitRating True 3 2 0 AsDriver 4 [] demo_db))) = Inr ()
   \<and> map_option (rating_average AsDriver)
        (users (snd (submitRating True 3 2 0 AsDriver 2 []
                  (snd (submitRating True 3 2 0 AsDriver 4 [] demo_db)))) 2) = Some 3
   \<and> map_option (rating_count AsDriver)
        (users (snd (submitRating True 3 2 0 AsDriver 2 []
                  (snd (submitRating True 3 2 0 AsDriver 4 [] demo_db)))) 2) = Some 2"
proof -
  let ?s1 = "snd (submitRating True 3 2 0 AsDriver 4 [] demo_db)"
  let ?s2 = "snd (submitRating True 3 2 0 AsDriver 2 [] ?s1)"
  have h: "users demo_db 2 = Some demo_user"
    by (simp add: demo_db_def)
  from submitRating_recomputes_mean [OF h, of 4 3 0 AsDriver "[]"]
  obtain u1 where u1: "users ?s1 2 = Some u1"
    and r1: "u_reviews u1 = [new_review 3 AsDriver 4 []]"
    by (auto simp: demo_user_def)
  from submitRating_recomputes_mean [OF u1, of 2 3 0 AsDriver "[]"]
  obtain u2 where ok: "fst (submitRating True 3 2 0 AsDriver 2 [] ?s1) = Inr ()"
    and u2: "users ?s2 2 = Some u2"
    and r2: "u_reviews u2 = [new_review 3 AsDriver 4 [], new_review 3 AsDriver 2 []]"
    and avg: "rating_average AsDriver u2
                = real_of_int (sum_list (map rv_rating (reviews_of_role AsDriver u2)))
                    / real (length (reviews_of_role AsDriver u2))"
    and cnt: "rating_count AsDriver u2 = length (reviews_of_role AsDriver u2)"
    by (auto simp: r1)
  have "reviews_of_role AsDriver u2 = [new_review 3 AsDriver 4 [], new_review 3 AsDriver 2 []]"
    by (simp add: reviews_of_role_def r2 new_review_def)
  with avg cnt have "rating_average AsDriver u2 = 3" "rating_count AsDriver u2 = 2"
    by (simp_all add: new_review_def)
  with h ok u2 show ?thesis by simp
qed

section \<open>Completing a ride payment, withdrawing\<close>

lemma rideSchema_valid_set_passenger_fare [simp]:
  "rideSchema_valid (set_passenger_fare i f r) = rideSchema_valid r"
  by (simp add: rideSchema_valid_def set_passenger_fare_def)

lemma transaction_status_name_completed [simp]:
  "transaction_status_name TxCompleted = ''completed''"
  by (simp add: transaction_status_name_def)

text \<open>The guard: a transaction of the caller that is not pending is answered with 400 and
  nothing is written, whatever ride is named.\<close>

lemma completeRidePayment_guard:
  assumes "Transaction_findById tid s = Some t" and "t_sender t = actor"
    and "t_status t \<noteq> TxPending"
  shows "completeRidePayment actor rid tid s
           = (Inl (Http 400 (''Transaction is already '' @ transaction_status_name (t_status t))), s)"
  using assms by (simp add: completeRidePayment_def respond_def)

text \<open>What \<open>completeRidePayment\<close> does when the named ride resolves: a pending transaction
  of the caller is stored as completed and the ride's driver is credited with its amount;
  a second call for the same transaction answers 400 and changes nothing.\<close>

lemma completeRidePayment_resolved_ride:
  assumes tx: "Transaction_findById tid s = Some t" and sender: "t_sender t = actor"
    and pending: "t_status t = TxPending"
    and ride: "rides s rid = Some r" and valid: "rideSchema_valid r"
    and driver: "users s (r_driver r) = Some d"
    and credit: "double_plus (u_balance d) (t_amount t) = Some b"
  shows "fst (completeRidePayment actor rid tid s) = Inr (t\<lparr>t_status := TxCompleted\<rparr>)
       \<and> Transaction_findById tid (snd (completeRidePayment actor rid tid s))
            = Some (t\<lparr>t_status := TxCompleted\<rparr>)
       \<and> (\<exists>d'. users (snd (completeRidePayment actor rid tid s)) (r_driver r) = Some d'
              \<and> u_balance d' = b)
       \<and> completeRidePayment actor rid' tid (snd (completeRidePayment actor rid tid s))
            = (Inl (Http 400 ''Transaction is already completed''),
               snd (completeRidePayment actor rid tid s))"
proof -
  let ?t' = "t\<lparr>t_status := TxCompleted\<rparr>"
  let ?d' = "d\<lparr>u_balance := b, u_transactions := u_transactions d @ [tid]\<rparr>"
  from tx have len: "tid < length (transactions s)"
    by (simp add: Transaction_findById_def split: if_splits)
  have run: "fst (completeRidePayment actor rid tid s) = Inr ?t'
      \<and> transactions (snd (completeRidePayment actor rid tid s)) = (transactions s)[tid := ?t']
      \<and> users (snd (completeRidePayment actor rid tid s)) = (users s)(r_driver r \<mapsto> ?d')"
    using assms
    by (simp add: completeRidePayment_def respond_def andThen_def succeed_def
         Transaction_save_def Ride_findById_def Ride_save_def User_findById_def User_save_def
         notify_valid Let_def split: option.splits)
  then have found: "Transaction_findById tid (snd (completeRidePayment actor rid tid s)) = Some ?t'"
    using len by (simp add: Transaction_findById_def)
  have again: "completeRidePayment actor rid' tid (snd (completeRidePayment actor rid tid s))
      = (Inl (Http 400 ''Transaction is already completed''),
         snd (completeRidePayment actor rid tid s))"
    using completeRidePayment_guard [OF found, of actor rid'] sender by simp
  from run found again show ?thesis by simp
qed

lemma demo_card_db_eq:
  "demo_card_db = demo_trip_db\<lparr>
     transactions := [demo_payment],
     rides := (rides demo_trip_db)(0 \<mapsto>
        set_passenger_fare 0 \<lparr>f_amount = Some 50, f_status = FarePending\<rparr> demo_trip)\<rparr>"
  by (simp add: demo_card_db_def initiateRidePayment_def Ride_findById_def findIndex_def
       amount_Number_def andThen_def Transaction_create_def paymentMethod_enum_def
       Ride_save_def succeed_def rideSchema_valid_def demo_trip_db_def demo_db_def
       demo_trip_def demo_ride_def demo_payment_def join_entry_def set_passenger_fare_def
       Let_def)

text \<open>
  C5. The pending card payment 0 of user 2 for ride 0, driven by user 1, as
  \<open>initiateRidePayment\<close> stored it. User 2 calls the completion step naming ride 99,
  which does not exist: the transaction is stored as completed and the answer is 404.
  The second call names ride 0 and is answered with 400 by the guard. After the two
  calls the transaction is completed and the driver's balance is still 100: the driver is
  credited not once but never. (The defect is the one of C6: the status is written before
  the ride is looked up.)
\<close>

theorem completeRidePayment_twice_credits_nobody:
  "map t_status (transactions demo_card_db) = [TxPending]
   \<and> map t_sender (transactions demo_card_db) = [2]
   \<and> map t_receiver (transactions demo_card_db) = [1]
   \<and> map t_amount (transactions demo_card_db) = [50]
   \<and> rides demo_card_db 99 = None
   \<and> map_option r_driver (rides demo_card_db 0) = Some 1
   \<and> map_option u_balance (users demo_card_db 1) = Some 100
   \<and> fst (completeRidePayment 2 99 0 demo_card_db) = Inl (Http 404 ''Ride not found'')
   \<and> map t_status (transactions (snd (completeRidePayment 2 99 0 demo_card_db))) = [TxCompleted]
   \<and> fst (completeRidePayment 2 0 0 (snd (completeRidePayment 2 99 0 demo_card_db)))
        = Inl (Http 400 ''Transaction is already completed'')
   \<and> map t_status (transactions (snd (completeRidePayment 2 0 0
          (snd (completeRidePayment 2 99 0 demo_card_db))))) = [TxCompleted]
   \<and> map_option u_balance (users (snd (completeRidePayment 2 0 0
          (snd (completeRidePayment 2 99 0 demo_card_db)))) 1) = Some 100"
proof -
  let ?s1 = "demo_card_db\<lparr>transactions := [demo_payment\<lparr>t_status := TxCompleted\<rparr>]\<rparr>"
  have first: "completeRidePayment 2 99 0 demo_card_db = (Inl (Http 404 ''Ride not found''), ?s1)"
    by (simp add: demo_card_db_eq completeRidePayment_def Transaction_findById_def respond_def
         andThen_def Transaction_save_def Ride_findById_def demo_trip_db_def demo_db_def
         demo_payment_def Let_def)
  have second: "completeRidePayment 2 0 0 ?s1
      = (Inl (Http 400 ''Transaction is already completed''), ?s1)"
    by (simp add: completeRidePayment_def Transaction_findById_def respond_def demo_payment_def)
  show ?thesis
    by (simp add: first second)
       (simp add: demo_card_db_eq demo_trip_db_def demo_db_def demo_payment_def demo_trip_def
         demo_ride_def demo_user_def set_passenger_fare_def)
qed

text \<open>
  C6. A failing call that is not atomic: user 2 completes the pending payment 0 naming a
  ride that does not exist. The answer is 404, yet the transaction is stored as
  completed and the receiver's balance is what it was.
\<close>

theorem completeRidePayment_unknown_ride_not_atomic:
  "map t_status (transactions demo_pay_db) = [TxPending]
   \<and> map_option u_balance (users demo_pay_db 1) = Some 100
   \<and> rides demo_pay_db 99 = None
   \<and> fst (completeRidePayment 2 99 0 demo_pay_db) = Inl (Http 404 ''Ride not found'')
   \<and> map t_status (transactions (snd (completeRidePayment 2 99 0 demo_pay_db))) = [TxCompleted]
   \<and> map_option u_balance (users (snd (completeRidePayment 2 99 0 demo_pay_db)) 1) = Some 100"
  by (simp add: completeRidePayment_def Transaction_findById_def respond_def andThen_def
       Transaction_save_def Ride_findById_def demo_pay_db_def demo_db_def demo_payment_def
       demo_user_def Let_def)

lemma paymentMethod_enum_bank_transfer: "paymentMethod_enum ''bank_transfer'' = None"
  by (simp add: paymentMethod_enum_def)

text \<open>
  C7. A withdrawal the balance covers: user 2 holds 100 and withdraws 40. The
  transaction is created with payment method \<open>bank_transfer\<close>, which the transaction
  schema's enum does not contain, so creation throws; no transaction is stored and the
  balance is not debited.
\<close>

theorem withdrawFunds_sufficient_balance_throws:
  "map_option u_balance (users demo_db 2) = Some 100
   \<and> withdrawFunds True 2 40 demo_db = (Inl (Thrown ValidationError), demo_db)"
  by (simp add: withdrawFunds_def User_findById_def andThen_def Transaction_create_def
       throw_def paymentMethod_enum_bank_transfer demo_db_def demo_user_def)

text \<open>No withdrawal succeeds or changes the store; one that exceeds the balance answers 400.\<close>

lemma withdrawFunds_never_succeeds:
  "\<exists>e. withdrawFunds fields_ok actor amount s = (Inl e, s)"
  by (simp add: withdrawFunds_def User_findById_def andThen_def Transaction_create_def
       throw_def respond_def paymentMethod_enum_bank_transfer split: option.splits)

lemma withdrawFunds_insufficient:
  "users s actor = Some u \<Longrightarrow> u_balance u < amount \<Longrightarrow>
   withdrawFunds True actor amount s = (Inl (Http 400 ''Insufficient balance''), s)"
  by (simp add: withdrawFunds_def User_findById_def respond_def)

section \<open>Environmental impact at completion\<close>



lemma accepted_completed [simp]:
  "accepted (r\<lparr>r_status := st, r_currentLocation := loc\<rparr>) = accepted r"
  by (simp add: accepted_def)







section \<open>Accepting a request when no seat is left\<close>

lemma demo_zero_ride:
  "rides demo_zero_db 1
     = Some (demo_ride\<lparr>r_availableSeats := 0, r_passengers := [join_entry 2 [1, 1] [2, 2]]\<rparr>)"
proof -
  let ?s1 = "snd (createRide True True 1 1 demo_one_seat_payload demo_db)"
  let ?s2 = "snd (requestRide True 2 1 [1, 1] [2, 2] ?s1)"
  have s1: "rides ?s1 1 = Some (demo_ride\<lparr>r_availableSeats := 1\<rparr>)"
    by (simp add: createRide_def User_findById_def andThen_def Ride_create_def User_save_def
         succeed_def rideSchema_valid_def demo_db_def demo_user_def demo_ride_def
         demo_one_seat_payload_def demo_payload_def Let_def)
  have s2: "rides ?s2 1
      = Some (demo_ride\<lparr>r_availableSeats := 1, r_passengers := [join_entry 2 [1, 1] [2, 2]]\<rparr>)"
    using s1
    by (simp add: requestRide_def Ride_findById_def andThen_def Ride_save_def succeed_def
         rideSchema_valid_def notify_valid Let_def)
       (simp add: demo_ride_def)
  show ?thesis
    unfolding demo_zero_db_def using s2
    by (simp add: updateRide_def Ride_findById_def andThen_def succeed_def set_seats_valid_def
         apply_update_def demo_decrement_def accepted_def join_entry_def double_add_def Let_def)
       (simp add: demo_ride_def)
qed

lemma demo_zero_users: "users demo_zero_db 2 = Some demo_user"
  by (simp add: demo_zero_db_def updateRide_def requestRide_def createRide_def Ride_findById_def
       User_findById_def andThen_def Ride_create_def Ride_save_def User_save_def succeed_def
       rideSchema_valid_def notify_valid set_seats_valid_def apply_update_def accepted_def
       join_entry_def double_add_def demo_decrement_def demo_one_seat_payload_def
       demo_payload_def demo_db_def demo_user_def demo_ride_def Let_def)

text \<open>
  C2. A ride with \<open>availableSeats = 0\<close> and a pending entry, reached through the handlers:
  user 1 creates ride 1 with one seat, user 2 asks to join, and the driver's update
  decrements the seat count with \<open>$inc\<close>, which the update validators do not check. The
  driver then accepts user 2. The handler has no capacity check: it registers the ride in
  the passenger's history, decrements to \<open>-1\<close>, and the save throws the schema's
  ValidationError, which is forwarded. The answer is not a 400 reporting a conflict, and
  user 2 now has the ride in the history without having been accepted.
\<close>

theorem respondToRideRequest_full_ride_no_conflict:
  "map_option r_availableSeats (rides demo_zero_db 1) = Some 0
   \<and> map_option (\<lambda>r. map p_user (r_passengers r)) (rides demo_zero_db 1) = Some [2]
   \<and> map_option (\<lambda>r. map p_status (r_passengers r)) (rides demo_zero_db 1) = Some [Pending]
   \<and> map_option r_driver (rides demo_zero_db 1) = Some 1
   \<and> fst (respondToRideRequest 1 1 2 ''accepted'' demo_zero_db) = Inl (Thrown ValidationError)
   \<and> \<not> is_conflict_answer (fst (respondToRideRequest 1 1 2 ''accepted'' demo_zero_db))
   \<and> map_option r_availableSeats
        (rides (snd (respondToRideRequest 1 1 2 ''accepted'' demo_zero_db)) 1) = Some 0
   \<and> map_option u_ridesAsPassenger (users demo_zero_db 2) = Some []
   \<and> map_option u_ridesAsPassenger
        (users (snd (respondToRideRequest 1 1 2 ''accepted'' demo_zero_db)) 2) = Some [1]"
proof -
  have run: "respondToRideRequest 1 1 2 ''accepted'' demo_zero_db
      = (Inl (Thrown ValidationError),
         demo_zero_db\<lparr>users := (users demo_zero_db)(2 \<mapsto>
            demo_user\<lparr>u_ridesAsPassenger := u_ridesAsPassenger demo_user @ [1]\<rparr>)\<rparr>)"
    using demo_zero_ride demo_zero_users
    by (simp add: respondToRideRequest_def Ride_findById_def andThen_def Ride_save_def Let_def
         findIndex_def join_entry_def set_passenger_status_def rideSchema_valid_def
         User_push_ridesAsPassenger_def demo_ride_def)
  show ?thesis
    using demo_zero_ride demo_zero_users run
    by (simp add: is_conflict_answer_def join_entry_def demo_ride_def demo_user_def)
qed


text \<open>The same happens whenever no second seat is left: the last seat is never given.\<close>

lemma respondToRideRequest_last_seat:
  assumes ride: "rides s rid = Some r" and actor: "r_driver r = actor"
    and seats: "r_availableSeats r \<le> 1" "- (2 ^ 53) < r_availableSeats r"
    and pending: "\<exists>p \<in> set (r_passengers r). p_user p = uid \<and> p_status p = Pending"
  shows "fst (respondToRideRequest actor rid uid ''accepted'' s) = Inl (Thrown ValidationError)
       \<and> rides (snd (respondToRideRequest actor rid uid ''accepted'' s)) = rides s"
proof -
  from findIndex_exists [OF pending] obtain i
    where i: "findIndex (\<lambda>p. p_user p = uid \<and> p_status p = Pending) (r_passengers r) = Some i" ..
  have "double_of_int (r_availableSeats r - 1) = r_availableSeats r - 1"
    using seats by (intro double_of_int_exact) simp
  then have invalid: "\<not> rideSchema_valid
      ((set_passenger_status i Accepted r)\<lparr>r_availableSeats :=
          double_of_int (r_availableSeats (set_passenger_status i Accepted r) - 1)\<rparr>)"
    using seats by (simp add: rideSchema_valid_def set_passenger_status_def)
  show ?thesis
    using ride actor i invalid
    by (simp add: respondToRideRequest_def Ride_findById_def andThen_def Ride_save_def Let_def
         split: prod.splits sum.splits)
       (metis User_push_ridesAsPassenger_frame(1,2) fst_conv snd_conv sum.inject(2) Inl_Inr_False)
qed

section \<open>The seat invariant\<close>

subsection \<open>Effects that leave the rides alone\<close>

lemma keeps_rides_basic [simp]:
  "keeps_rides (succeed x)"
  "keeps_rides (respond code msg)"
  "keeps_rides (throw e)"
  "keeps_rides (Notification_create n)"
  "keeps_rides (notify recipient sender ty rid tx)"
  "keeps_rides (User_save uid u)"
  "keeps_rides (User_push_ridesAsPassenger uid rid)"
  "keeps_rides (User_pull_ridesAsPassenger uid rid)"
  "keeps_rides (User_pull_ridesAsDriver uid rid)"
  by (simp_all add: keeps_rides_def succeed_def respond_def throw_def Notification_create_def
       notify_def User_save_def User_push_ridesAsPassenger_def User_pull_ridesAsPassenger_def
       User_pull_ridesAsDriver_def split: option.splits)

lemma keeps_rides_andThen [intro]:
  assumes "keeps_rides m" and "\<And>x. keeps_rides (f x)"
  shows "keeps_rides (andThen m f)"
  using assms by (auto simp: keeps_rides_def andThen_def split: prod.splits sum.splits)
     (metis snd_conv)+

lemma keeps_rides_if [intro]:
  "keeps_rides m \<Longrightarrow> keeps_rides m' \<Longrightarrow> keeps_rides (if b then m else m')"
  by simp

lemma keeps_rides_user_case [intro]:
  assumes "\<And>u. keeps_rides (g u)"
  shows "keeps_rides (\<lambda>s. case User_findById uid s of None \<Rightarrow> throw e s | Some u \<Rightarrow> g u s)"
  using assms by (auto simp: keeps_rides_def throw_def split: option.splits)

lemma keeps_rides_notify_passengers [simp]: "keeps_rides (notify_passengers actor ty rid ps)"
  by (induction ps) (auto intro!: keeps_rides_andThen)

lemma keeps_rides_retract_passengers [simp]: "keeps_rides (retract_passengers actor rid ps)"
  by (induction ps) (auto intro!: keeps_rides_andThen)

lemma keeps_rides_settle_passengers [simp]:
  "keeps_rides (settle_passengers actor rid co2 fuel trees n ps)"
  by (induction ps) (auto intro!: keeps_rides_andThen keeps_rides_user_case)






lemma accepted_fields [simp]:
  "accepted (r\<lparr>r_status := st\<rparr>) = accepted r"
  "accepted (r\<lparr>r_currentLocation := loc\<rparr>) = accepted r"
  "accepted (r\<lparr>r_cancellationReason := reason\<rparr>) = accepted r"
  "accepted (r\<lparr>r_availableSeats := k\<rparr>) = accepted r"
  by (simp_all add: accepted_def)

lemma seat_invariant_fields [simp]:
  "seat_invariant c (r\<lparr>r_status := st\<rparr>) = seat_invariant c r"
  "seat_invariant c (r\<lparr>r_currentLocation := loc\<rparr>) = seat_invariant c r"
  "seat_invariant c (r\<lparr>r_cancellationReason := reason\<rparr>) = seat_invariant c r"
  by (simp_all add: seat_invariant_def)




subsection \<open>Each handler keeps the invariant\<close>















subsection \<open>The invariant along a history\<close>






text \<open>Above \<open>2 ^ 53\<close> the seat count is no longer exact: a decrement of \<open>2 ^ 53 + 2\<close>
  gives \<open>2 ^ 53\<close>, two less for one passenger.\<close>

lemma decrement_lost_above_2_53: "double_of_int ((2 ^ 53 + 2) - 1) = 2 ^ 53"
  by (simp add: double_of_int_def Let_def)

section \<open>Wallet balances and the ledger\<close>

lemma sum_amounts_Nil [simp]: "sum_amounts P [] = 0"
  by (simp add: sum_amounts_def)

lemma sum_amounts_snoc [simp]:
  "sum_amounts P (txs @ [t]) = sum_amounts P txs + (if P t then t_amount t else 0)"
  by (simp add: sum_amounts_def)







lemma paymentMethod_enum_wallet [simp]: "paymentMethod_enum ''wallet'' = Some Wallet"
  by (simp add: paymentMethod_enum_def)





lemma double_plus_demo [simp]:
  "double_plus 0 500 = Some 500" "double_plus 0 (- 500) = Some (- 500)"
  "double_plus (- 500) 500 = Some 0"
  "double_plus 0 50 = Some 50" "double_plus 0 (- 50) = Some (- 50)"
  "double_plus (- 50) 50 = Some 0"
  "double_plus 500 50 = Some 550" "double_plus 500 (- 50) = Some 450"
  "double_plus 450 50 = Some 500"
  by (simp_all add: double_plus_def double_round_def Let_def)










text \<open>An amount carried as a JSON string is appended to the balance's text: a top-up of
  "500" on a balance of 100 books a transaction of 500 and stores the balance 100500.\<close>

lemma decimal_text_100 [simp]: "decimal_text 100 = ''100''"
  by (simp add: decimal_text.simps)

lemma addFundsToWallet_string_amount:
  "map_option u_balance (users demo_db 2) = Some 100
   \<and> map t_amount
        (transactions (snd (addFundsToWallet demo_js True 2 (JString ''500'') ''card'' demo_db)))
       = [500]
   \<and> map_option u_balance
        (users (snd (addFundsToWallet demo_js True 2 (JString ''500'') ''card'' demo_db)) 2)
       = Some 100500"
  by (simp add: addFundsToWallet_def amount_Number_def plus_assign_def andThen_def
       Transaction_create_def paymentMethod_enum_def demo_js_def findIndex_def
       User_findById_def User_save_def succeed_def demo_db_def demo_user_def
       double_round_def Let_def)


subsection \<open>Rounding\<close>

text \<open>A balance update that is not exact: after a top-up of \<open>2 ^ 53\<close> a top-up of 1 books
  a completed transaction of 1 and leaves the balance as it was, so the store is no longer
  consistent.\<close>

lemma wallet_consistent_demo_empty: "wallet_consistent demo_empty_db"
  by (simp add: wallet_consistent_def demo_empty_db_def demo_db_def wallet_net_def demo_user_def sum_amounts_def)

lemma addFundsToWallet_rounds:
  "wallet_consistent demo_empty_db
   \<and> map_option u_balance (users
        (snd (addFundsToWallet demo_js True 2 (JNumber 1) ''card''
          (snd (addFundsToWallet demo_js True 2 (JNumber (2 ^ 53)) ''card'' demo_empty_db)))) 2)
       = Some (2 ^ 53)
   \<and> wallet_net 2 (transactions
        (snd (addFundsToWallet demo_js True 2 (JNumber 1) ''card''
          (snd (addFundsToWallet demo_js True 2 (JNumber (2 ^ 53)) ''card'' demo_empty_db)))))
       = 2 ^ 53 + 1
   \<and> \<not> wallet_consistent
        (snd (addFundsToWallet demo_js True 2 (JNumber 1) ''card''
          (snd (addFundsToWallet demo_js True 2 (JNumber (2 ^ 53)) ''card'' demo_empty_db))))"
proof -
  let ?s1 = "snd (addFundsToWallet demo_js True 2 (JNumber (2 ^ 53)) ''card'' demo_empty_db)"
  let ?s2 = "snd (addFundsToWallet demo_js True 2 (JNumber 1) ''card'' ?s1)"
  have dp: "double_plus 0 (2 ^ 53) = Some (2 ^ 53)" "double_plus (2 ^ 53) 1 = Some (2 ^ 53)"
    by (simp_all add: double_plus_def double_round_def Let_def)
  have s1: "users ?s1 2 = Some (demo_user\<lparr>u_balance := 2 ^ 53, u_transactions := [0]\<rparr>)"
    "map t_amount (transactions ?s1) = [2 ^ 53]"
    using dp
    by (simp_all add: addFundsToWallet_def amount_Number_def plus_assign_def andThen_def
         Transaction_create_def paymentMethod_enum_def User_findById_def User_save_def
         succeed_def demo_empty_db_def demo_db_def demo_user_def Let_def)
  have b: "map_option u_balance (users ?s2 2) = Some (2 ^ 53)"
    and n: "wallet_net 2 (transactions ?s2) = 2 ^ 53 + 1"
    using dp
    by (simp_all add: addFundsToWallet_def amount_Number_def plus_assign_def andThen_def
         Transaction_create_def paymentMethod_enum_def User_findById_def User_save_def
         succeed_def demo_empty_db_def demo_db_def demo_user_def wallet_net_def
         sum_amounts_def Let_def)
  from b obtain usr where u: "users ?s2 2 = Some usr" "u_balance usr = 2 ^ 53" by auto
  have "\<not> wallet_consistent ?s2"
  proof
    assume "wallet_consistent ?s2"
    with u have "u_balance usr = wallet_net 2 (transactions ?s2)"
      unfolding wallet_consistent_def by blast
    with u n show False by simp
  qed
  with wallet_consistent_demo_empty b n show ?thesis by simp
qed

text \<open>Updates between whole numbers are exact as long as nothing leaves the range of
  \<open>2 ^ 53\<close>.\<close>

lemma bit_length_bounds:
  "0 < n \<Longrightarrow> 2 ^ (bit_length n - 1) \<le> n \<and> n < 2 ^ bit_length n"
proof (induction n rule: bit_length.induct)
  case (1 x)
  show ?case
  proof (cases "x = 1")
    case True
    then show ?thesis by simp
  next
    case False
    with 1(2) have pos: "0 < x div 2" by simp
    from 1(2) have "\<not> x \<le> 0" by simp
    from 1(1) [OF this pos] have ih: "2 ^ (bit_length (x div 2) - 1) \<le> x div 2"
      "x div 2 < 2 ^ bit_length (x div 2)" by simp_all
    from pos have bl: "bit_length (x div 2) \<noteq> 0"
      by (subst bit_length.simps) simp
    have eq: "bit_length x = Suc (bit_length (x div 2))"
      using 1(2) by (subst bit_length.simps) simp
    from bl obtain m where m: "bit_length (x div 2) = Suc m" by (cases "bit_length (x div 2)") auto
    from ih m have "2 ^ m \<le> x div 2" "x div 2 < 2 * 2 ^ m" by simp_all
    then have "2 * 2 ^ m \<le> x" "x < 2 * (2 * 2 ^ m)" by linarith+
    then show ?thesis by (simp add: eq m)
  qed
qed

lemma double_round_of_int:
  assumes "\<bar>n\<bar> \<le> 2 ^ 53"
  shows "double_round (of_int n) = of_int n"
proof (cases "n = 0")
  case True
  then show ?thesis by (simp add: double_round_def)
next
  case False
  define a where "a = \<bar>n\<bar>"
  define b where "b = bit_length a"
  from False have apos: "0 < a" by (simp add: a_def)
  from bit_length_bounds [OF apos] have lo: "2 ^ (b - 1) \<le> a" and hi: "a < 2 ^ b"
    by (simp_all add: b_def)
  from apos have b0: "b \<noteq> 0" unfolding b_def by (subst bit_length.simps) simp
  from lo assms have "(2::int) ^ (b - 1) \<le> 2 ^ 53" by (simp add: a_def)
  then have b54: "b - 1 \<le> 53"
    using power_le_imp_le_exp [of "2::int" "b - 1" 53] by simp
  have abs_real: "\<bar>real_of_int n\<bar> = real_of_int a" by (simp add: a_def)
  have one: "1 \<le> real_of_int a" using apos by simp
  have small: "\<not> (2::real) ^ 1024 \<le> real_of_int a"
  proof -
    have "real_of_int a \<le> 2 ^ 53" using assms unfolding a_def
      by (metis of_int_le_iff of_int_numeral of_int_power)
    also have "\<dots> < (2::real) ^ 1024" by simp
    finally show ?thesis by simp
  qed
  have sg: "sgn (real_of_int n) * real_of_int a = real_of_int n"
    unfolding a_def by (simp add: sgn_if)
  show ?thesis
  proof (cases "b \<le> 53")
    case True
    define j where "j = 53 - b"
    have k: "max (int b - 1) (- 1022) - 52 = - int j" using True b0 by (simp add: j_def)
    have q: "real_of_int a / (1 / 2 ^ j) = real_of_int (a * 2 ^ j)" by simp
    show ?thesis
    proof (cases "j = 0")
      case True
      with k show ?thesis
        using False one small sg
        by (simp add: double_round_def abs_real b_def [symmetric] Let_def)
    next
      case j: False
      with k show ?thesis
        using False one small sg q
        by (simp add: double_round_def abs_real b_def [symmetric] Let_def)
    qed
  next
    case False
    with b54 have b: "b = 54" by simp
    with lo assms have a: "a = 2 ^ 53" by (simp add: a_def)
    show ?thesis
      using \<open>n \<noteq> 0\<close> sg
      by (simp add: double_round_def abs_real Let_def a)
  qed
qed

lemma exact_plus_whole:
  assumes "\<bar>a\<bar> \<le> 2 ^ 53" and "\<bar>b\<bar> \<le> 2 ^ 53" and "\<bar>a + b\<bar> \<le> 2 ^ 53"
  shows "exact_plus (of_int a) (of_int b)"
proof -
  have fin: "\<bar>real_of_int n\<bar> \<noteq> 2 ^ 1024" if "\<bar>n\<bar> \<le> 2 ^ 53" for n
  proof -
    have "\<bar>real_of_int n\<bar> = real_of_int \<bar>n\<bar>" by simp
    also have "\<dots> \<le> 2 ^ 53" using that
      by (metis of_int_le_iff of_int_numeral of_int_power)
    also have "\<dots> < (2::real) ^ 1024" by simp
    finally show ?thesis by simp
  qed
  have "double_round (real_of_int a + real_of_int b) = real_of_int a + real_of_int b"
    using double_round_of_int [OF assms(3)] by simp
  with fin [OF assms(1)] fin [OF assms(2)] show ?thesis
    by (simp add: exact_plus_def double_plus_def)
qed

end
